theory Spec2Isabelle
  imports Main "HOL-Library.AList"
begin

section \<open>Values of the template language\<close>

text \<open>
  The template resolver of \<^verbatim>\<open>core/src/template-string.ts\<close> computes with JavaScript values.
  Numbers are IEEE doubles, whose arithmetic is a primitive of the language and not of this
  program: the number type is a type parameter \<open>'n\<close> and its operations are the fields of
  a record handed to every function that uses them. Whether two arrays or two objects are
  the same object is a fact of the heap and not of their contents; it is a field of the same
  record. An object is the list of its own entries in the order \<^verbatim>\<open>Object.entries\<close> gives
  them; its prototype is the one of an object literal.
\<close>

datatype 'n jsval =
    Undefined
  | Null
  | JBool bool
  | Num 'n
  | Str string
  | Arr "'n jsval list"
  | Obj "(string \<times> 'n jsval) list"

record 'n js_ops =
  num_add :: "'n \<Rightarrow> 'n \<Rightarrow> 'n"
  num_sub :: "'n \<Rightarrow> 'n \<Rightarrow> 'n"
  num_mul :: "'n \<Rightarrow> 'n \<Rightarrow> 'n"
  num_div :: "'n \<Rightarrow> 'n \<Rightarrow> 'n"
  num_mod :: "'n \<Rightarrow> 'n \<Rightarrow> 'n"
  num_lt :: "'n \<Rightarrow> 'n \<Rightarrow> bool"
  num_le :: "'n \<Rightarrow> 'n \<Rightarrow> bool"
  num_eq :: "'n \<Rightarrow> 'n \<Rightarrow> bool"
  num_truthy :: "'n \<Rightarrow> bool"
  num_to_string :: "'n \<Rightarrow> string"
  same_ref :: "'n jsval \<Rightarrow> 'n jsval \<Rightarrow> bool"

text \<open>The error classes the resolver raises, and the \<^verbatim>\<open>type\<close> field the classes of
  \<^verbatim>\<open>template-string.ts\<close> declare. \<open>TypeError\<close> is the engine's own error for a property
  read on \<^verbatim>\<open>null\<close> or \<^verbatim>\<open>undefined\<close>; \<open>OtherError\<close> stands for any other class, such as
  what the generated parser or a plugin handler throws by itself. \<open>ConfigurationError\<close> and
  \<open>RuntimeError\<close> come from \<^verbatim>\<open>./exceptions\<close>, \<open>TestError\<close> from the test task.\<close>

datatype err_class =
    TemplateStringError
  | TemplateStringMissingKeyException
  | TemplateStringPassthroughException
  | ConfigurationError
  | RuntimeError
  | TestError
  | TypeError
  | OtherError

record jserror =
  err_class :: err_class
  err_message :: string

definition missingKeyExceptionType :: string where
  "missingKeyExceptionType = ''template-string-missing-key''"

definition passthroughExceptionType :: string where
  "passthroughExceptionType = ''template-string-passthrough''"

text \<open>The \<^verbatim>\<open>type\<close> field of an error, for the three classes this file declares; the other
  classes are declared elsewhere and their field is not modelled (\<open>None\<close>).\<close>

fun error_type :: "err_class \<Rightarrow> string option" where
  "error_type TemplateStringError = Some ''template-string''"
| "error_type TemplateStringMissingKeyException = Some missingKeyExceptionType"
| "error_type TemplateStringPassthroughException = Some passthroughExceptionType"
| "error_type _ = None"

definition new_error :: "err_class \<Rightarrow> string \<Rightarrow> jserror" where
  "new_error c m = \<lparr>err_class = c, err_message = m\<rparr>"

datatype block = BlockIf | BlockElse | BlockElseIf | BlockEndif

text \<open>\<^verbatim>\<open>ResolvedClause\<close>: what a context lookup or a failed sub-expression hands on. An
  operand of an operator is either such a clause (every plain object in operand position is
  one: the parameter type of \<^verbatim>\<open>getValue\<close> is \<^verbatim>\<open>Primitive | undefined | ResolvedClause\<close>) or a
  raw value: a literal, or the boolean, number or array an operator returned.\<close>

record 'n clause =
  resolved :: "'n jsval"
  message :: "string option"
  error :: "jserror option"
  block :: "block option"

datatype 'n operand = Raw "'n jsval" | Clause "'n clause"

fun getValue :: "'n operand \<Rightarrow> 'n jsval" where
  "getValue (Clause c) = resolved c"
| "getValue (Raw v) = v"

text \<open>\<^verbatim>\<open>res && res._error\<close>: a raw value has no such property, an error object is truthy.\<close>

fun has_error :: "'n operand \<Rightarrow> bool" where
  "has_error (Raw v) = False"
| "has_error (Clause c) = (error c \<noteq> None)"

text \<open>\<^verbatim>\<open>{ _error: err }\<close>\<close>

definition error_result :: "jserror \<Rightarrow> 'n operand" where
  "error_result e = Clause \<lparr>resolved = Undefined, message = None, error = Some e, block = None\<rparr>"

text \<open>\<^verbatim>\<open>res.message\<close>: reading a property of a raw \<^verbatim>\<open>undefined\<close> or \<^verbatim>\<open>null\<close> throws; the
  other raw values have no such property. (The wording of the engine's message varies with
  its version; the model fixes one.)\<close>

fun res_message :: "'n operand \<Rightarrow> jserror + string option" where
  "res_message (Raw Undefined) =
     Inl (new_error TypeError ''Cannot read property 'message' of undefined'')"
| "res_message (Raw Null) =
     Inl (new_error TypeError ''Cannot read property 'message' of null'')"
| "res_message (Raw v) = Inr None"
| "res_message (Clause c) = Inr (message c)"

text \<open>\<^verbatim>\<open>.filter(Boolean).join(" ")\<close> on the messages: absent and empty ones are dropped.\<close>

fun join_with :: "string \<Rightarrow> string list \<Rightarrow> string" where
  "join_with sep [] = []"
| "join_with sep [x] = x"
| "join_with sep (x # y # ys) = x @ sep @ join_with sep (y # ys)"

definition join_messages :: "string option list \<Rightarrow> string" where
  "join_messages ms = join_with '' '' (filter (\<lambda>m. m \<noteq> []) (List.map_filter id ms))"

fun isNumber :: "'n jsval \<Rightarrow> bool" where
  "isNumber (Num n) = True"
| "isNumber _ = False"

fun isArray :: "'n jsval \<Rightarrow> bool" where
  "isArray (Arr xs) = True"
| "isArray _ = False"

fun isPlainObject :: "'n jsval \<Rightarrow> bool" where
  "isPlainObject (Obj fs) = True"
| "isPlainObject _ = False"

text \<open>\<^verbatim>\<open>Primitive = string | number | boolean | null\<close>\<close>

fun isPrimitive :: "'n jsval \<Rightarrow> bool" where
  "isPrimitive Null = True"
| "isPrimitive (JBool b) = True"
| "isPrimitive (Num n) = True"
| "isPrimitive (Str s) = True"
| "isPrimitive _ = False"

fun typeof :: "'n jsval \<Rightarrow> string" where
  "typeof Undefined = ''undefined''"
| "typeof Null = ''object''"
| "typeof (JBool b) = ''boolean''"
| "typeof (Num n) = ''number''"
| "typeof (Str s) = ''string''"
| "typeof (Arr xs) = ''object''"
| "typeof (Obj fs) = ''object''"

text \<open>\<^verbatim>\<open>left === right\<close>\<close>

fun strict_eq :: "'n js_ops \<Rightarrow> 'n jsval \<Rightarrow> 'n jsval \<Rightarrow> bool" where
  "strict_eq ops Undefined Undefined = True"
| "strict_eq ops Null Null = True"
| "strict_eq ops (JBool a) (JBool b) = (a = b)"
| "strict_eq ops (Num a) (Num b) = num_eq ops a b"
| "strict_eq ops (Str a) (Str b) = (a = b)"
| "strict_eq ops (Arr xs) (Arr ys) = same_ref ops (Arr xs) (Arr ys)"
| "strict_eq ops (Obj fs) (Obj gs) = same_ref ops (Obj fs) (Obj gs)"
| "strict_eq ops _ _ = False"

text \<open>Truthiness: \<^verbatim>\<open>undefined\<close>, \<^verbatim>\<open>null\<close>, \<^verbatim>\<open>false\<close>, the empty string and the numbers
  the language counts as falsy (zero and NaN) are falsy; everything else is truthy.\<close>

fun truthy :: "'n js_ops \<Rightarrow> 'n jsval \<Rightarrow> bool" where
  "truthy ops Undefined = False"
| "truthy ops Null = False"
| "truthy ops (JBool b) = b"
| "truthy ops (Num n) = num_truthy ops n"
| "truthy ops (Str s) = (s \<noteq> [])"
| "truthy ops (Arr xs) = True"
| "truthy ops (Obj fs) = True"

section \<open>Binary and logical operators\<close>

text \<open>\<^verbatim>\<open>Array.prototype.reduce\<close> with a callback that may throw.\<close>

fun reduce :: "('a \<Rightarrow> 'b \<Rightarrow> 'e + 'a) \<Rightarrow> 'b list \<Rightarrow> 'a \<Rightarrow> 'e + 'a" where
  "reduce f [] acc = Inr acc"
| "reduce f (x # xs) acc = (case f acc x of Inl e \<Rightarrow> Inl e | Inr acc' \<Rightarrow> reduce f xs acc')"

text \<open>The operators that come after \<^verbatim>\<open>==\<close>, \<^verbatim>\<open>!=\<close> and \<^verbatim>\<open>+\<close>: the \<^verbatim>\<open>switch\<close> on two numbers.\<close>

definition numeric_operator :: "'n js_ops \<Rightarrow> string \<Rightarrow> 'n \<Rightarrow> 'n \<Rightarrow> 'n operand" where
  "numeric_operator ops operator l r =
    (if operator = ''*'' then Raw (Num (num_mul ops l r))
     else if operator = ''/'' then Raw (Num (num_div ops l r))
     else if operator = ''%'' then Raw (Num (num_mod ops l r))
     else if operator = ''-'' then Raw (Num (num_sub ops l r))
     else if operator = ''<='' then Raw (JBool (num_le ops l r))
     else if operator = ''>='' then Raw (JBool (num_le ops r l))
     else if operator = ''<'' then Raw (JBool (num_lt ops l r))
     else if operator = ''>'' then Raw (JBool (num_lt ops r l))
     else error_result (new_error TemplateStringError (''Unrecognized operator: '' @ operator)))"

text \<open>The callback of \<^verbatim>\<open>buildBinaryExpression\<close>: one operator applied to the result so far
  (the left operand) and to the next element of the tail, an operator with its right
  operand.\<close>

definition binaryStep :: "'n js_ops \<Rightarrow> 'n operand \<Rightarrow> string \<times> 'n operand \<Rightarrow> jserror + 'n operand" where
  "binaryStep ops result element =
    (let operator = fst element; leftRes = result; rightRes = snd element in
     if has_error leftRes then Inr leftRes
     else if has_error rightRes then Inr rightRes
     else
       let left = getValue leftRes; right = getValue rightRes in
       if left = Undefined \<or> right = Undefined then
         (case res_message leftRes of
            Inl e \<Rightarrow> Inl e
          | Inr ml \<Rightarrow>
            (case res_message rightRes of
               Inl e \<Rightarrow> Inl e
             | Inr mr \<Rightarrow>
               (let message = join_messages [ml, mr] in
                Inr (error_result (new_error TemplateStringError
                  (if message = [] then ''Could not resolve one or more keys.'' else message))))))
       else if operator = ''=='' then Inr (Raw (JBool (strict_eq ops left right)))
       else if operator = ''!='' then Inr (Raw (JBool (\<not> strict_eq ops left right)))
       else if operator = ''+'' then
         (case (left, right) of
            (Num a, Num b) \<Rightarrow> Inr (Raw (Num (num_add ops a b)))
          | (Arr xs, Arr ys) \<Rightarrow> Inr (Raw (Arr (xs @ ys)))
          | _ \<Rightarrow> Inr (error_result (new_error TemplateStringError
              (''Both terms need to be either arrays or numbers for + operator (got ''
                @ typeof left @ '' and '' @ typeof right @ '').''))))
       else
         (case (left, right) of
            (Num a, Num b) \<Rightarrow> Inr (numeric_operator ops operator a b)
          | _ \<Rightarrow> Inr (error_result (new_error TemplateStringError
              (''Both terms need to be numbers for '' @ operator @ '' operator (got ''
                @ typeof left @ '' and '' @ typeof right @ '').'')))))"

definition buildBinaryExpression ::
  "'n js_ops \<Rightarrow> 'n operand \<Rightarrow> (string \<times> 'n operand) list \<Rightarrow> jserror + 'n operand" where
  "buildBinaryExpression ops head tail = reduce (binaryStep ops) tail head"

text \<open>The callback of \<^verbatim>\<open>buildLogicalExpression\<close>. It never throws.\<close>

definition logicalStep :: "'n js_ops \<Rightarrow> 'n operand \<Rightarrow> string \<times> 'n operand \<Rightarrow> 'n operand" where
  "logicalStep ops result element =
    (let operator = fst element; leftRes = result; rightRes = snd element in
     if has_error leftRes then leftRes
     else if has_error rightRes then rightRes
     else
       let left = getValue leftRes in
       if operator = ''&&'' then (if \<not> truthy ops left then leftRes else rightRes)
       else if operator = ''||'' then (if truthy ops left then leftRes else rightRes)
       else error_result (new_error TemplateStringError (''Unrecognized operator: '' @ operator)))"

definition buildLogicalExpression ::
  "'n js_ops \<Rightarrow> 'n operand \<Rightarrow> (string \<times> 'n operand) list \<Rightarrow> 'n operand" where
  "buildLogicalExpression ops head tail = foldl (logicalStep ops) head tail"

section \<open>Resolving one template string\<close>

text \<open>
  \<^verbatim>\<open>resolveTemplateString\<close> drives a generated parser (\<^verbatim>\<open>./template-string-parser\<close>) that is
  not part of the sources. The parser, applied to a string with the callbacks built from the
  context and the options, is the field \<open>parse\<close> of the environment: it returns the list of
  parts of the string, or throws. \<^verbatim>\<open>truncate\<close> comes from \<^verbatim>\<open>./util/string\<close> and is a field as
  well (\<open>truncate_string\<close>). \<open>allowPartial\<close> is \<^verbatim>\<open>opts.allowPartial\<close>.
\<close>

record 'n env =
  engine :: "'n js_ops"
  parse :: "string \<Rightarrow> jserror + 'n operand list"
  truncate_string :: "string \<Rightarrow> nat \<Rightarrow> string"
  allowPartial :: bool

text \<open>String concatenation \<^verbatim>\<open>"" + v\<close>: the language's conversion of a value to a string. An
  array is its elements joined by commas, where \<^verbatim>\<open>null\<close> and \<^verbatim>\<open>undefined\<close> elements give
  the empty string.\<close>

fun js_to_string :: "'n js_ops \<Rightarrow> 'n jsval \<Rightarrow> string" where
  "js_to_string ops Undefined = ''undefined''"
| "js_to_string ops Null = ''null''"
| "js_to_string ops (JBool b) = (if b then ''true'' else ''false'')"
| "js_to_string ops (Num n) = num_to_string ops n"
| "js_to_string ops (Str s) = s"
| "js_to_string ops (Arr xs) =
     join_with '','' (map (\<lambda>x. if x = Undefined \<or> x = Null then [] else js_to_string ops x) xs)"
| "js_to_string ops (Obj fs) = ''[object Object]''"

datatype node_type = Root | IfNode | ElseNode | ValueNode

text \<open>\<^verbatim>\<open>ConditionalTree\<close>: a node with its type, its value and its children. While the tree is
  assembled, the current node and its ancestors are open: each is a triple of type, value
  and the children it has so far, the list of ancestors starting with the parent.\<close>

datatype 'n ctree = Node node_type "'n jsval" "'n ctree list"

type_synonym 'n open_node = "node_type \<times> 'n jsval \<times> 'n ctree list"

fun push_child :: "'n ctree \<Rightarrow> 'n open_node \<Rightarrow> 'n open_node" where
  "push_child c (t, v, cs) = (t, v, cs @ [c])"

text \<open>\<^verbatim>\<open>isPlainObject(p) ? p : { resolved: getValue(p) }\<close>\<close>

fun to_clause :: "'n operand \<Rightarrow> 'n clause" where
  "to_clause (Clause c) = c"
| "to_clause (Raw v) = \<lparr>resolved = v, message = None, error = None, block = None\<rparr>"

text \<open>The loop over the parts. A node whose \<^verbatim>\<open>if\<close> or \<^verbatim>\<open>else\<close> is closed goes to the
  children of its parent. The root has no parent and is neither \<^verbatim>\<open>if\<close> nor \<^verbatim>\<open>else\<close>, so the
  list of ancestors is not empty where the source reads \<^verbatim>\<open>currentNode.parent\<close>.\<close>

fun assemble ::
  "'n js_ops \<Rightarrow> 'n clause list \<Rightarrow> 'n open_node \<Rightarrow> 'n open_node list \<Rightarrow> jserror + 'n ctree" where
  "assemble ops [] (t, v, cs) anc =
     (if t = IfNode \<or> t = ElseNode
      then Inl (new_error TemplateStringError ''Missing ${endif} after ${if ...} block.'')
      else Inr (Node t v cs))"
| "assemble ops (part # parts) (t, v, cs) anc =
     (if block part = Some BlockIf then
        assemble ops parts (IfNode, JBool (truthy ops (resolved part)), []) ((t, v, cs) # anc)
      else if block part = Some BlockElse then
        (if t \<noteq> IfNode
         then Inl (new_error TemplateStringError
                ''Found ${else} block without a preceding ${if...} block.'')
         else (case anc of
                 [] \<Rightarrow> Inl (new_error TypeError ''Cannot read property 'children' of undefined'')
               | p # anc' \<Rightarrow>
                   assemble ops parts (ElseNode, JBool (\<not> truthy ops v), [])
                     (push_child (Node t v cs) p # anc')))
      else if block part = Some BlockEndif then
        (if t = IfNode \<or> t = ElseNode
         then (case anc of
                 [] \<Rightarrow> Inl (new_error TypeError ''Cannot read property 'type' of undefined'')
               | p # anc' \<Rightarrow> assemble ops parts (push_child (Node t v cs) p) anc')
         else Inl (new_error TemplateStringError
                ''Found ${endif} block without a preceding ${if...} block.''))
      else
        assemble ops parts
          (t, v, cs @ [Node ValueNode (if resolved part = Null then Str ''null'' else resolved part) []])
          anc)"

text \<open>\<^verbatim>\<open>resolveTree\<close>: the text a node adds to the output string.\<close>

fun resolveTree :: "'n js_ops \<Rightarrow> 'n ctree \<Rightarrow> string" where
  "resolveTree ops (Node t v cs) =
     (if t = ValueNode \<and> v \<noteq> Undefined then js_to_string ops v
      else if t = Root \<or> ((t = IfNode \<or> t = ElseNode) \<and> truthy ops v)
      then concat (map (resolveTree ops) cs)
      else [])"

text \<open>The body of the \<^verbatim>\<open>try\<close> block.\<close>

definition resolve_parts :: "'n env \<Rightarrow> string \<Rightarrow> jserror + 'n jsval" where
  "resolve_parts env string =
    (case parse env string of
       Inl e \<Rightarrow> Inl e
     | Inr parsed \<Rightarrow>
        (let outputs = map to_clause parsed in
         case List.map_filter error outputs of
           e # es \<Rightarrow> Inl e
         | [] \<Rightarrow>
            if length outputs > 1 then
              (case assemble (engine env) outputs (Root, Undefined, []) [] of
                 Inl e \<Rightarrow> Inl e
               | Inr tree \<Rightarrow> Inr (Str (resolveTree (engine env) tree)))
            else
              (case outputs of [] \<Rightarrow> Inr Undefined | r # rs \<Rightarrow> Inr (resolved r))))"

text \<open>The \<^verbatim>\<open>catch\<close> block: whatever was thrown is thrown again as a
  \<^verbatim>\<open>TemplateStringError\<close>, its message behind a prefix that names the string.\<close>

definition error_prefix :: "'n env \<Rightarrow> string \<Rightarrow> string" where
  "error_prefix env string =
     ''Invalid template string (''
     @ concat (map (\<lambda>c. if c = CHR 0x0A then [CHR 0x5C, CHR ''n''] else [c]) (truncate_string env string 35))
     @ ''): ''"

definition rethrow :: "'n env \<Rightarrow> string \<Rightarrow> jserror \<Rightarrow> jserror" where
  "rethrow env string err =
    (let prefix = error_prefix env string;
         message = (if take (length prefix) (err_message err) = prefix
                    then err_message err else prefix @ err_message err)
     in new_error TemplateStringError message)"

definition resolveTemplateString :: "'n env \<Rightarrow> string \<Rightarrow> jserror + 'n jsval" where
  "resolveTemplateString env string =
    (if string = [] then Inr (Str string)
     else (case resolve_parts env string of
             Inl err \<Rightarrow> Inl (rethrow env string err)
           | Inr v \<Rightarrow> Inr v))"

section \<open>Resolving a tree of values\<close>

text \<open>Modelled from the spec: \<^verbatim>\<open>objectSpreadKey\<close> is imported from \<^verbatim>\<open>./config/common\<close>, which
  is not part of the sources; the spec names the reserved key \<^verbatim>\<open>$merge\<close>.\<close>

definition objectSpreadKey :: string where
  "objectSpreadKey = ''$merge''"

text \<open>What a function of this part does: it throws, it returns a value, or it replaces the
  prototype of an object it builds. The values of this theory are the primitive values,
  arrays, and objects with the prototype of an object literal; an object with another
  prototype is none of them. Where an assignment makes such an object, the model stops
  following the code: the outcome is \<open>Unrepresented\<close>, which says nothing of what the code
  returns or throws from there.\<close>

datatype 'a outcome = Throws jserror | Returns 'a | Unrepresented

text \<open>\<^verbatim>\<open>output[k] = v\<close> on an object built from \<^verbatim>\<open>{}\<close>, given by its own entries. The entry of
  an own key is replaced where it stands and a new key is added at the end, which is
  \<open>AList.update\<close>, with one exception: \<^verbatim>\<open>__proto__\<close> names an accessor of the prototype of
  object literals. Unless the object has an own property of that name (a spread can give it
  one), the assignment calls the setter of that accessor and adds no entry: the setter
  ignores a value that is neither an object nor \<^verbatim>\<open>null\<close>, and makes any other value the
  prototype of the object (\<open>None\<close>).\<close>

definition assign ::
  "string \<Rightarrow> 'n jsval \<Rightarrow> (string \<times> 'n jsval) list \<Rightarrow> (string \<times> 'n jsval) list option" where
  "assign k v output =
    (if k = ''__proto__'' \<and> k \<notin> fst ` set output
     then (if isArray v \<or> isPlainObject v \<or> v = Null then None else Some output)
     else Some (AList.update k v output))"

text \<open>\<^verbatim>\<open>{ ...output, ...resolved }\<close> defines the entries of \<open>output\<close> and then those of
  \<open>resolved\<close>, one after the other, as own properties of a new object literal, whatever
  their keys. (JavaScript lists integer-like keys first; the order of the entries is the
  order of insertion here, and no statement depends on it.)\<close>

definition spread :: "(string \<times> 'a) list \<Rightarrow> (string \<times> 'a) list \<Rightarrow> (string \<times> 'a) list" where
  "spread output fs = fold (\<lambda>(k, v). AList.update k v) fs output"

fun resolveTemplateStrings :: "'n env \<Rightarrow> 'n jsval \<Rightarrow> 'n jsval outcome"
  and resolveElements :: "'n env \<Rightarrow> 'n jsval list \<Rightarrow> 'n jsval list outcome"
  and resolveEntries ::
    "'n env \<Rightarrow> (string \<times> 'n jsval) list \<Rightarrow> (string \<times> 'n jsval) list
      \<Rightarrow> (string \<times> 'n jsval) list outcome" where
  "resolveTemplateStrings env (Str s) =
     (case resolveTemplateString env s of Inl e \<Rightarrow> Throws e | Inr r \<Rightarrow> Returns r)"
| "resolveTemplateStrings env (Arr xs) =
     (case resolveElements env xs of
        Throws e \<Rightarrow> Throws e | Unrepresented \<Rightarrow> Unrepresented | Returns rs \<Rightarrow> Returns (Arr rs))"
| "resolveTemplateStrings env (Obj es) =
     (case resolveEntries env es [] of
        Throws e \<Rightarrow> Throws e | Unrepresented \<Rightarrow> Unrepresented
      | Returns output \<Rightarrow> Returns (Obj output))"
| "resolveTemplateStrings env Undefined = Returns Undefined"
| "resolveTemplateStrings env Null = Returns Null"
| "resolveTemplateStrings env (JBool b) = Returns (JBool b)"
| "resolveTemplateStrings env (Num n) = Returns (Num n)"
| "resolveElements env [] = Returns []"
| "resolveElements env (x # xs) =
     (case resolveTemplateStrings env x of
        Throws e \<Rightarrow> Throws e
      | Unrepresented \<Rightarrow> Unrepresented
      | Returns r \<Rightarrow>
         (case resolveElements env xs of
            Throws e \<Rightarrow> Throws e | Unrepresented \<Rightarrow> Unrepresented
          | Returns rs \<Rightarrow> Returns (r # rs)))"
| "resolveEntries env [] output = Returns output"
| "resolveEntries env ((k, v) # es) output =
     (case resolveTemplateStrings env v of
        Throws e \<Rightarrow> Throws e
      | Unrepresented \<Rightarrow> Unrepresented
      | Returns r \<Rightarrow>
         if k = objectSpreadKey then
           (if isPlainObject r then
              (case r of Obj fs \<Rightarrow> resolveEntries env es (spread output fs)
                       | _ \<Rightarrow> resolveEntries env es output)
            else if allowPartial env then
              (case assign k r output of
                 None \<Rightarrow> Unrepresented
               | Some output' \<Rightarrow> resolveEntries env es output')
            else Throws (new_error ConfigurationError
                   (''Value of '' @ objectSpreadKey
                     @ '' key must be (or resolve to) a mapping object (got '' @ typeof r @ '')'')))
         else
           (case assign k r output of
              None \<Rightarrow> Unrepresented
            | Some output' \<Rightarrow> resolveEntries env es output'))"

section \<open>The action graph\<close>

datatype action_kind = Build | Deploy | Run | Test

type_synonym action_ref = "action_kind \<times> string"

record action =
  kind :: action_kind
  name :: string
  dependencies :: "action_ref list"

text \<open>Modelled from the spec: the \<^verbatim>\<open>ConfigGraph\<close> class (\<^verbatim>\<open>graph/config-graph\<close>) is not part
  of the sources. The spec gives it as the actions and the edges between them, an edge from
  an action to each action it depends on, with the accessors \<^verbatim>\<open>getActions(refs?, filter?)\<close>
  and \<^verbatim>\<open>getDependants(ref, recursive)\<close>, the inverse of \<^verbatim>\<open>getDependencies\<close> over the edge
  set. The dependants of a reference are the actions with an edge to it, or with a path of
  edges to it when \<open>recursive\<close> is set, among those the filter accepts. (The sources pass a
  filter only when \<open>recursive\<close> is not set.)\<close>

record config_graph =
  actions :: "action list"

definition action_ref :: "action \<Rightarrow> action_ref" where
  "action_ref a = (kind a, name a)"

definition edges :: "config_graph \<Rightarrow> (action_ref \<times> action_ref) set" where
  "edges g = set (concat (map (\<lambda>a. map (\<lambda>d. (action_ref a, d)) (dependencies a)) (actions g)))"

definition getDependants ::
  "config_graph \<Rightarrow> action_kind \<Rightarrow> string \<Rightarrow> bool \<Rightarrow> (action \<Rightarrow> bool) \<Rightarrow> action list" where
  "getDependants g k n recursive flt =
     filter (\<lambda>a. flt a \<and> (action_ref a, (k, n)) \<in> (if recursive then (edges g)\<^sup>+ else edges g))
       (actions g)"

text \<open>Modelled from the spec: \<^verbatim>\<open>getDeploys({ names })\<close> of the same class, \<^verbatim>\<open>getActions\<close> for
  the Deploy kind: all Deploy actions, or those with one of the given names.\<close>

definition getDeploys :: "config_graph \<Rightarrow> string list option \<Rightarrow> action list" where
  "getDeploys g names =
     filter (\<lambda>a. kind a = Deploy \<and> (case names of None \<Rightarrow> True | Some ns \<Rightarrow> name a \<in> set ns))
       (actions g)"

text \<open>Modelled from the spec: \<^verbatim>\<open>isDeployAction\<close> (\<^verbatim>\<open>actions/deploy\<close>) and \<^verbatim>\<open>uniqByName\<close>
  (\<^verbatim>\<open>util/util\<close>) are imported by the sources but not part of them. The first tells an
  action of kind Deploy; the second keeps, of the actions of one name, the first.\<close>

definition isDeployAction :: "action \<Rightarrow> bool" where
  "isDeployAction a = (kind a = Deploy)"

fun uniqByName :: "action list \<Rightarrow> action list" where
  "uniqByName [] = []"
| "uniqByName (a # as) = a # uniqByName (filter (\<lambda>b. name b \<noteq> name a) as)"

section \<open>Deleting deploys\<close>

text \<open>\<^verbatim>\<open>DeleteDeployTask\<close> (\<^verbatim>\<open>tasks/delete-service\<close>): the fields the task adds to its
  action. The constructor's defaults: \<^verbatim>\<open>dependantsFirst = false\<close>, and
  \<^verbatim>\<open>deleteDeployNames || [action.name]\<close>.\<close>

record delete_deploy_task =
  task_action :: action
  dependantsFirst :: bool
  deleteDeployNames :: "string list"

definition new_DeleteDeployTask ::
  "action \<Rightarrow> string list option \<Rightarrow> bool option \<Rightarrow> delete_deploy_task" where
  "new_DeleteDeployTask a names first =
     \<lparr>task_action = a,
      dependantsFirst = (case first of None \<Rightarrow> False | Some b \<Rightarrow> b),
      deleteDeployNames = (case names of None \<Rightarrow> [name a] | Some ns \<Rightarrow> ns)\<rparr>"

definition getName :: "delete_deploy_task \<Rightarrow> string" where
  "getName t = name (task_action t)"

definition resolveDependencies :: "config_graph \<Rightarrow> delete_deploy_task \<Rightarrow> delete_deploy_task list" where
  "resolveDependencies g t =
    (if \<not> dependantsFirst t then []
     else
       (let deps = getDependants g Deploy (getName t) False
                     (\<lambda>depNode. kind depNode = Deploy \<and> name depNode \<in> set (deleteDeployNames t))
        in map (\<lambda>a. new_DeleteDeployTask a (Some (deleteDeployNames t)) (Some True))
             (filter isDeployAction deps)))"

text \<open>Modelled from the spec: the task graph solver is not part of the sources. Of the order
  in which it runs tasks the spec says that no task executes before all its declared
  prerequisites have terminated. A list of tasks in the order of their completion obeys
  that when the prerequisites of each task are among the tasks before it.\<close>

fun completes_in_order :: "('t \<Rightarrow> 't list) \<Rightarrow> 't list \<Rightarrow> 't list \<Rightarrow> bool" where
  "completes_in_order prereq done [] = True"
| "completes_in_order prereq done (t # ts) =
     (set (prereq t) \<subseteq> set done \<and> completes_in_order prereq (done @ [t]) ts)"

section \<open>Graph results\<close>

text \<open>\<^verbatim>\<open>GraphResult\<close> is declared with the task graph, which is not part of the sources; these
  are the fields the sources read. \<^verbatim>\<open>GraphResults\<close> maps a task key to its result or to
  \<^verbatim>\<open>null\<close>; it is the list of its entries. Dates are of a type \<open>'d\<close>.\<close>

record ('n, 'd) graph_result =
  gr_type :: string
  gr_name :: string
  gr_output :: "(string \<times> 'n jsval) list option"
  gr_error :: "jserror option"
  gr_startedAt :: "'d option"
  gr_completedAt :: "'d option"
  gr_version :: string

type_synonym ('n, 'd) graph_results = "(string \<times> ('n, 'd) graph_result option) list"

text \<open>\<^verbatim>\<open>deletedDeployStatuses\<close> (\<^verbatim>\<open>deletedServiceStatuses\<close> where the sources define it): the
  output of every result of a delete task, by the name of the result.\<close>

definition deletedDeployStatuses ::
  "('n, 'd) graph_results \<Rightarrow> (string \<times> (string \<times> 'n jsval) list option) list" where
  "deletedDeployStatuses results =
    (let deleted = filter (\<lambda>r. gr_type r = ''delete-service'') (List.map_filter snd results)
     in fold (\<lambda>res statuses. AList.update (gr_name res) (gr_output res) statuses) deleted [])"

text \<open>\<^verbatim>\<open>DeleteDeployCommand.action\<close>: what it logs, the tasks it hands to
  \<^verbatim>\<open>garden.processTasks\<close> (\<open>None\<close> when it never calls it) and its result. The solver behind
  \<^verbatim>\<open>processTasks\<close> is a parameter.\<close>

record delete_deploy_opts =
  opt_dependants_first :: bool
  opt_with_dependants :: bool

record 'n delete_deploy_outcome =
  warnings :: "string list"
  scheduled :: "delete_deploy_task list option"
  cmd_result :: "(string \<times> (string \<times> 'n jsval) list option) list"

definition DeleteDeployCommand_action ::
  "config_graph \<Rightarrow> (delete_deploy_task list \<Rightarrow> ('n, 'd) graph_results) \<Rightarrow> string list option
    \<Rightarrow> delete_deploy_opts \<Rightarrow> 'n delete_deploy_outcome" where
  "DeleteDeployCommand_action graph processTasks names opts =
    (let acts = getDeploys graph names in
     if length acts = 0 then
       \<lparr>warnings = [''No deploys found. Aborting.''], scheduled = None, cmd_result = []\<rparr>
     else
       (let acts' =
              (if opt_with_dependants opts
               then uniqByName (acts @ concat (map (\<lambda>s. filter isDeployAction
                      (getDependants graph Deploy (name s) True (\<lambda>a. True))) acts))
               else acts);
            dependantsFirst = (opt_dependants_first opts \<or> opt_with_dependants opts);
            deleteDeployNames = map name acts';
            tasks = map (\<lambda>a. new_DeleteDeployTask a (Some deleteDeployNames) (Some dependantsFirst)) acts'
        in \<lparr>warnings = [], scheduled = Some tasks,
            cmd_result = deletedDeployStatuses (processTasks tasks)\<rparr>))"

section \<open>The test task\<close>

datatype log_entry =
    LogInfo string
  | LogDebug string
  | LogError string jserror
  | SetSuccess string
  | SetError string

text \<open>\<^verbatim>\<open>GetTestResult\<close> with its \<^verbatim>\<open>detail\<close>, of which the task reads \<^verbatim>\<open>success\<close> and
  \<^verbatim>\<open>log\<close>. The two handlers of the action router the task calls are parameters: what
  \<^verbatim>\<open>router.test.getResult\<close> returns for the action (the stored result, if any), and what
  \<^verbatim>\<open>router.test.run\<close> returns or throws. The calls made are recorded with the log.\<close>

record test_detail =
  td_success :: bool
  td_log :: string

record get_test_result =
  gtr_detail :: "test_detail option"

record test_router =
  router_getResult :: "get_test_result option"
  router_run :: "jserror + get_test_result"

datatype handler_call = GetResultCall | RunCall

record task_trace =
  calls :: "handler_call list"
  task_log :: "log_entry list"

definition getTestResult :: "bool \<Rightarrow> test_router \<Rightarrow> task_trace \<Rightarrow> get_test_result option \<times> task_trace" where
  "getTestResult force router tr =
    (if force then (None, tr)
     else (router_getResult router, tr\<lparr>calls := calls tr @ [GetResultCall]\<rparr>))"

definition TestTask_getStatus ::
  "bool \<Rightarrow> test_router \<Rightarrow> task_trace \<Rightarrow> get_test_result option \<times> task_trace" where
  "TestTask_getStatus force router tr =
    (let (result, tr') = getTestResult force router tr;
         testResult = (case result of None \<Rightarrow> None | Some r \<Rightarrow> gtr_detail r)
     in case testResult of
          Some d \<Rightarrow>
            if td_success d
            then (result, tr'\<lparr>task_log := task_log tr' @ [LogInfo ''Already passed'', SetSuccess ''Already passed'']\<rparr>)
            else (None, tr')
        | None \<Rightarrow> (None, tr'))"

text \<open>\<^verbatim>\<open>process\<close>; \<open>took\<close> is the elapsed time \<^verbatim>\<open>log.getDuration(1)\<close> as it is printed.\<close>

definition TestTask_process ::
  "test_router \<Rightarrow> string \<Rightarrow> task_trace \<Rightarrow> (jserror + get_test_result) \<times> task_trace" where
  "TestTask_process router took tr =
    (let tr1 = tr\<lparr>task_log := task_log tr @ [LogInfo ''Running...''], calls := calls tr @ [RunCall]\<rparr>
     in case router_run router of
          Inl err \<Rightarrow> (Inl err, tr1\<lparr>task_log := task_log tr1 @ [SetError []]\<rparr>)
        | Inr result \<Rightarrow>
            (case gtr_detail result of
               Some d \<Rightarrow>
                 if td_success d
                 then (Inr result,
                       tr1\<lparr>task_log := task_log tr1 @ [SetSuccess (''Success (took '' @ took @ '' sec)'')]\<rparr>)
                 else (Inl (new_error TestError (td_log d)),
                       tr1\<lparr>task_log := task_log tr1 @ [SetError (''Failed! (took '' @ took @ '' sec)'')]\<rparr>)
             | None \<Rightarrow>
                 (Inl (new_error TestError []),
                  tr1\<lparr>task_log := task_log tr1 @ [SetError (''Failed! (took '' @ took @ '' sec)'')]\<rparr>)))"

text \<open>Modelled from the spec: the base class of the task and the solver that runs it are not
  part of the sources. The spec has the Test task short-circuit on a cached result with
  \<^verbatim>\<open>success=true\<close>: the solver asks the task for its status first, and returns that status
  without processing the task when there is one.\<close>

definition run_test_task ::
  "bool \<Rightarrow> test_router \<Rightarrow> string \<Rightarrow> task_trace \<Rightarrow> (jserror + get_test_result) \<times> task_trace" where
  "run_test_task force router took tr =
    (case TestTask_getStatus force router tr of
       (Some status, tr') \<Rightarrow> (Inr status, tr')
     | (None, tr') \<Rightarrow> TestTask_process router took tr')"

text \<open>The condition of the short-circuit: the force flag is unset and the stored result has a
  detail whose \<^verbatim>\<open>success\<close> is true.\<close>

definition cached_pass :: "bool \<Rightarrow> test_router \<Rightarrow> bool" where
  "cached_pass force router =
     (\<not> force \<and> (case router_getResult router of
                    None \<Rightarrow> False
                  | Some r \<Rightarrow> (case gtr_detail r of None \<Rightarrow> False | Some d \<Rightarrow> td_success d)))"

section \<open>The watch loop\<close>

text \<open>The promise at the end of \<^verbatim>\<open>processActions\<close> and the handlers it registers for the
  restart, exit and configuration events. The state is what the handlers share: the Garden
  instance in use, whether the promise is resolved, the variable \<^verbatim>\<open>restartRequired\<close> and the
  log; with it, the handlers that have started and wait, and the errors of the handlers that
  were rejected. \<^verbatim>\<open>Garden.factory\<close>, \<^verbatim>\<open>getConfigGraph\<close> and \<^verbatim>\<open>close\<close> belong to the Garden
  class, which is not part of the sources: what they return or throw to a handler is a
  parameter. \<^verbatim>\<open>dedent\<close> comes from \<^verbatim>\<open>./util/string\<close>, which is not part of the sources either:
  the tag function is a parameter as well, applied to the pieces of a template and to the
  values between them.\<close>

record 'g watch_env =
  factory :: "'g \<Rightarrow> jserror + 'g"
  getConfigGraph :: "'g \<Rightarrow> jserror option"
  close :: "'g \<Rightarrow> jserror option"
  projectRoot :: "'g \<Rightarrow> string"
  dedent :: "string list \<Rightarrow> string list \<Rightarrow> string"



datatype bus_event =
    Restart
  | Exit
  | ProjectConfigChanged
  | ConfigAdded string
  | ConfigRemoved string
  | ActionConfigChanged string "string list"









text \<open>What happens while \<^verbatim>\<open>processActions\<close> waits for the promise, one step after the other:
  an event is emitted and its handler starts, or the validation that the \<open>n\<close>-th waiting
  handler waits for settles, with what the Garden class answered it, and the handler leaves
  the list of those that wait.\<close>

datatype step = Emit bus_event | Settle nat







section \<open>Command results\<close>

text \<open>Decimal digits of a count, for \<^verbatim>\<open>`${failedCount} ...`\<close>.\<close>

fun show_nat :: "nat \<Rightarrow> string" where
  "show_nat n =
     (if n < 10 then [''0123456789'' ! n] else show_nat (n div 10) @ [''0123456789'' ! (n mod 10)])"

declare show_nat.simps [simp del]










section \<open>Numbers for the examples\<close>

text \<open>An engine for the examples: whole numbers, of which no two operands are the same
  object. On whole numbers below \<open>2^53\<close> doubles add, subtract, multiply and compare
  exactly, so these fields are what the language computes there; the quotient and the
  remainder are the whole ones and agree with the language only where the divisor divides
  (no example uses them).\<close>

definition whole_numbers :: "int js_ops" where
  "whole_numbers =
     \<lparr>num_add = (+), num_sub = (-), num_mul = (*), num_div = (div), num_mod = (mod),
      num_lt = (<), num_le = (\<le>), num_eq = (=), num_truthy = (\<lambda>n. n \<noteq> 0),
      num_to_string = (\<lambda>n. if n < 0 then ''-'' @ show_nat (nat (- n)) else show_nat (nat n)),
      same_ref = (\<lambda>a b. False)\<rparr>"


text \<open>An environment whose parser returns one given part for every string: a string that
  is a single template clause, with the result of its expression.\<close>

definition clause_env :: "int operand \<Rightarrow> int env" where
  "clause_env part =
     \<lparr>engine = whole_numbers, parse = (\<lambda>s. Inr [part]),
      truncate_string = (\<lambda>s n. s), allowPartial = False\<rparr>"

text \<open>A graph for the examples: three Deploy actions, \<open>c\<close> depends on \<open>b\<close> and \<open>b\<close> on
  \<open>a\<close>; and a solver that returns no results.\<close>

definition deploy_a :: action where
  "deploy_a = \<lparr>kind = Deploy, name = ''a'', dependencies = []\<rparr>"

definition deploy_b :: action where
  "deploy_b = \<lparr>kind = Deploy, name = ''b'', dependencies = [(Deploy, ''a'')]\<rparr>"

definition deploy_c :: action where
  "deploy_c = \<lparr>kind = Deploy, name = ''c'', dependencies = [(Deploy, ''b'')]\<rparr>"

definition chain :: config_graph where
  "chain = \<lparr>actions = [deploy_a, deploy_b, deploy_c]\<rparr>"

definition no_results :: "delete_deploy_task list \<Rightarrow> (int, nat) graph_results" where
  "no_results tasks = []"

text \<open>Routers for the examples: one with a stored result that passed, one whose stored
  result and whose run both fail.\<close>

definition passed_router :: test_router where
  "passed_router =
     \<lparr>router_getResult = Some \<lparr>gtr_detail = Some \<lparr>td_success = True, td_log = ''stored''\<rparr>\<rparr>,
      router_run = Inr \<lparr>gtr_detail = Some \<lparr>td_success = True, td_log = ''ran''\<rparr>\<rparr>\<rparr>"

definition failed_router :: test_router where
  "failed_router =
     \<lparr>router_getResult = Some \<lparr>gtr_detail = Some \<lparr>td_success = False, td_log = ''stored''\<rparr>\<rparr>,
      router_run = Inr \<lparr>gtr_detail = Some \<lparr>td_success = False, td_log = ''1 failing''\<rparr>\<rparr>\<rparr>"














section \<open>Properties of the operators\<close>

lemma rethrow_class: "err_class (rethrow env s e) = TemplateStringError"
  by (simp add: rethrow_def new_error_def Let_def)

lemma resolveTemplateString_error:
  "resolveTemplateString env s = Inl e \<Longrightarrow> err_class e = TemplateStringError"
  by (auto simp: resolveTemplateString_def rethrow_class split: if_splits sum.splits)

lemma binaryStep_undefined:
  assumes "\<not> has_error l" and "\<not> has_error r"
    and "getValue l = Undefined \<or> getValue r = Undefined"
  shows "binaryStep ops l (operator, r) =
     (case res_message l of Inl e \<Rightarrow> Inl e
      | Inr ml \<Rightarrow> (case res_message r of Inl e \<Rightarrow> Inl e
         | Inr mr \<Rightarrow> Inr (error_result (new_error TemplateStringError
              (if join_messages [ml, mr] = [] then ''Could not resolve one or more keys.''
               else join_messages [ml, mr])))))"
  using assms by (auto simp: binaryStep_def Let_def split: sum.splits)

lemma binaryStep_defined:
  assumes "\<not> has_error l" and "\<not> has_error r"
    and "getValue l \<noteq> Undefined" and "getValue r \<noteq> Undefined"
  shows "binaryStep ops l (operator, r) =
    (if operator = ''=='' then Inr (Raw (JBool (strict_eq ops (getValue l) (getValue r))))
     else if operator = ''!='' then Inr (Raw (JBool (\<not> strict_eq ops (getValue l) (getValue r))))
     else if operator = ''+'' then
       (case (getValue l, getValue r) of
          (Num a, Num b) \<Rightarrow> Inr (Raw (Num (num_add ops a b)))
        | (Arr xs, Arr ys) \<Rightarrow> Inr (Raw (Arr (xs @ ys)))
        | _ \<Rightarrow> Inr (error_result (new_error TemplateStringError
            (''Both terms need to be either arrays or numbers for + operator (got ''
              @ typeof (getValue l) @ '' and '' @ typeof (getValue r) @ '').''))))
     else
       (case (getValue l, getValue r) of
          (Num a, Num b) \<Rightarrow> Inr (numeric_operator ops operator a b)
        | _ \<Rightarrow> Inr (error_result (new_error TemplateStringError
            (''Both terms need to be numbers for '' @ operator @ '' operator (got ''
              @ typeof (getValue l) @ '' and '' @ typeof (getValue r) @ '').'')))))"
  using assms by (simp add: binaryStep_def Let_def)

lemma buildBinaryExpression_snoc:
  "buildBinaryExpression ops head (tail @ [element]) =
     (case buildBinaryExpression ops head tail of
        Inl e \<Rightarrow> Inl e
      | Inr result \<Rightarrow> binaryStep ops result element)"
  unfolding buildBinaryExpression_def
  by (induction tail arbitrary: head) (auto split: sum.splits)

lemma buildLogicalExpression_snoc:
  "buildLogicalExpression ops head (tail @ [element]) =
     logicalStep ops (buildLogicalExpression ops head tail) element"
  by (simp add: buildLogicalExpression_def)

lemma strict_eq_primitive:
  assumes "isPrimitive x" and "isPrimitive y"
  shows "strict_eq ops x y =
     (case (x, y) of (Num a, Num b) \<Rightarrow> num_eq ops a b | _ \<Rightarrow> x = y)"
  using assms by (cases x; cases y) simp_all

text \<open>
  Claim C2, as the code has it. On two defined operands that carry no error, \<^verbatim>\<open>==\<close> returns
  the boolean of the strict equality \<^verbatim>\<open>===\<close> of the two values and \<^verbatim>\<open>!=\<close> its negation;
  neither fails. On two primitive values strict equality is equality of the values (of two
  numbers, what the language takes for equal numbers). When a value is not primitive, the two
  are equal only if both are arrays or both are objects, and the same object.
\<close>

theorem equality_operators:
  assumes "\<not> has_error l" and "\<not> has_error r"
    and "getValue l \<noteq> Undefined" and "getValue r \<noteq> Undefined"
  shows "binaryStep ops l (''=='', r) = Inr (Raw (JBool (strict_eq ops (getValue l) (getValue r))))
       \<and> binaryStep ops l (''!='', r) = Inr (Raw (JBool (\<not> strict_eq ops (getValue l) (getValue r))))
       \<and> (isPrimitive (getValue l) \<and> isPrimitive (getValue r) \<longrightarrow>
            strict_eq ops (getValue l) (getValue r) =
              (case (getValue l, getValue r) of
                 (Num a, Num b) \<Rightarrow> num_eq ops a b
               | _ \<Rightarrow> getValue l = getValue r))
       \<and> (\<not> isPrimitive (getValue l) \<or> \<not> isPrimitive (getValue r) \<longrightarrow>
            strict_eq ops (getValue l) (getValue r) =
              (((isArray (getValue l) \<and> isArray (getValue r))
                 \<or> (isPlainObject (getValue l) \<and> isPlainObject (getValue r)))
               \<and> same_ref ops (getValue l) (getValue r)))"
proof -
  have "\<not> isPrimitive x \<or> \<not> isPrimitive y \<Longrightarrow> x \<noteq> Undefined \<Longrightarrow> y \<noteq> Undefined \<Longrightarrow>
      strict_eq ops x y = (((isArray x \<and> isArray y) \<or> (isPlainObject x \<and> isPlainObject y))
               \<and> same_ref ops x y)" for x y :: "'a jsval"
    by (cases x; cases y) simp_all
  then show ?thesis
    using assms by (simp add: binaryStep_defined strict_eq_primitive)
qed

text \<open>
  Claim C3. On two defined operands that carry no error, \<^verbatim>\<open>+\<close> returns the sum of two
  numbers, the left array followed by the right one for two arrays, and for every other pair
  an error result that says both terms need to be arrays or numbers.
\<close>

theorem plus_operator:
  assumes "\<not> has_error l" and "\<not> has_error r"
    and "getValue l \<noteq> Undefined" and "getValue r \<noteq> Undefined"
  shows "(\<forall>a b. getValue l = Num a \<and> getValue r = Num b \<longrightarrow>
            binaryStep ops l (''+'', r) = Inr (Raw (Num (num_add ops a b))))
       \<and> (\<forall>xs ys. getValue l = Arr xs \<and> getValue r = Arr ys \<longrightarrow>
            binaryStep ops l (''+'', r) = Inr (Raw (Arr (xs @ ys))))
       \<and> (\<not> (isNumber (getValue l) \<and> isNumber (getValue r))
            \<and> \<not> (isArray (getValue l) \<and> isArray (getValue r)) \<longrightarrow>
            binaryStep ops l (''+'', r) =
              Inr (error_result (new_error TemplateStringError
                (''Both terms need to be either arrays or numbers for + operator (got ''
                  @ typeof (getValue l) @ '' and '' @ typeof (getValue r) @ '').''))))"
proof -
  have step: "binaryStep ops l (''+'', r) =
       (case (getValue l, getValue r) of
          (Num a, Num b) \<Rightarrow> Inr (Raw (Num (num_add ops a b)))
        | (Arr xs, Arr ys) \<Rightarrow> Inr (Raw (Arr (xs @ ys)))
        | _ \<Rightarrow> Inr (error_result (new_error TemplateStringError
            (''Both terms need to be either arrays or numbers for + operator (got ''
              @ typeof (getValue l) @ '' and '' @ typeof (getValue r) @ '').''))))"
    using assms by (simp add: binaryStep_defined)
  show ?thesis
    unfolding step by (cases "getValue l"; cases "getValue r"; simp)
qed

text \<open>
  Claim C4, as the code has it. When neither operand carries an error, \<^verbatim>\<open>&&\<close> returns the
  left operand if its value is falsy and the right operand otherwise, and \<^verbatim>\<open>||\<close> returns the
  left operand if its value is truthy and the right operand otherwise: the operand as it is,
  not a boolean. When an operand carries an error, that operand is returned, the left one
  first, whatever the operator and the value of the left operand.
\<close>

theorem logical_operators:
  "(\<not> has_error l \<and> \<not> has_error r \<longrightarrow>
       logicalStep ops l (''&&'', r) = (if truthy ops (getValue l) then r else l)
     \<and> logicalStep ops l (''||'', r) = (if truthy ops (getValue l) then l else r))
   \<and> (has_error l \<longrightarrow> logicalStep ops l (operator, r) = l)
   \<and> (\<not> has_error l \<and> has_error r \<longrightarrow> logicalStep ops l (operator, r) = r)"
  by (simp add: logicalStep_def Let_def)

text \<open>
  Claim C1, as the code has it. Take an arithmetic or comparison operator whose operands
  carry no error of their own and are not a raw \<^verbatim>\<open>undefined\<close> or \<^verbatim>\<open>null\<close>. When either of them
  resolves to \<^verbatim>\<open>undefined\<close>, the evaluation fails: the operator returns an error result
  whose error is a \<^verbatim>\<open>TemplateStringError\<close>; its message is the messages of the two operands
  joined by a space, or \<^verbatim>\<open>Could not resolve one or more keys.\<close> when they have none. The type
  of a \<^verbatim>\<open>TemplateStringError\<close> is \<^verbatim>\<open>template-string\<close>, which is neither the missing-key type
  nor the passthrough type, the two types handed to the parser, and every error that
  \<^verbatim>\<open>resolveTemplateString\<close> throws is a \<^verbatim>\<open>TemplateStringError\<close>.
\<close>

theorem undefined_operand_fails:
  assumes "\<not> has_error l" and "\<not> has_error r"
    and "getValue l = Undefined \<or> getValue r = Undefined"
    and "l \<notin> {Raw Undefined, Raw Null}" and "r \<notin> {Raw Undefined, Raw Null}"
  shows "(\<exists>ml mr. res_message l = Inr ml \<and> res_message r = Inr mr
            \<and> binaryStep ops l (operator, r) =
                Inr (error_result (new_error TemplateStringError
                  (if join_messages [ml, mr] = [] then ''Could not resolve one or more keys.''
                   else join_messages [ml, mr]))))
         \<and> error_type TemplateStringError = Some ''template-string''
         \<and> error_type TemplateStringError \<noteq> Some missingKeyExceptionType
         \<and> error_type TemplateStringError \<noteq> Some passthroughExceptionType
         \<and> (\<forall>env s e. resolveTemplateString env s = Inl e
               \<longrightarrow> err_class (e::jserror) = TemplateStringError)"
proof -
  from assms(4) obtain ml where ml: "res_message l = Inr ml"
    by (cases l rule: res_message.cases) auto
  from assms(5) obtain mr where mr: "res_message r = Inr mr"
    by (cases r rule: res_message.cases) auto
  have "binaryStep ops l (operator, r) =
          Inr (error_result (new_error TemplateStringError
            (if join_messages [ml, mr] = [] then ''Could not resolve one or more keys.''
             else join_messages [ml, mr])))"
    unfolding binaryStep_undefined [OF assms(1-3)] by (simp add: ml mr)
  with ml mr have "\<exists>ml mr. res_message l = Inr ml \<and> res_message r = Inr mr
            \<and> binaryStep ops l (operator, r) =
                Inr (error_result (new_error TemplateStringError
                  (if join_messages [ml, mr] = [] then ''Could not resolve one or more keys.''
                   else join_messages [ml, mr])))"
    by blast
  moreover have "error_type TemplateStringError = Some ''template-string''"
    "error_type TemplateStringError \<noteq> Some missingKeyExceptionType"
    "error_type TemplateStringError \<noteq> Some passthroughExceptionType"
    by (simp_all add: missingKeyExceptionType_def passthroughExceptionType_def)
  ultimately show ?thesis
    using resolveTemplateString_error by blast
qed

text \<open>
  The statement at \<^verbatim>\<open>${a >= b}\<close> with \<^verbatim>\<open>a = 123\<close> and no key \<^verbatim>\<open>b\<close>.
\<close>

theorem undefined_operand_fails_witness:
  "\<not> has_error (Clause \<lparr>resolved = Num 123, message = None, error = None, block = None\<rparr> :: int operand)
   \<and> \<not> has_error (Clause \<lparr>resolved = Undefined, message = Some ''Could not find key b.'',
                error = None, block = None\<rparr> :: int operand)
   \<and> getValue (Clause \<lparr>resolved = Undefined, message = Some ''Could not find key b.'',
                error = None, block = None\<rparr> :: int operand) = Undefined
   \<and> (Clause \<lparr>resolved = Num 123, message = None, error = None, block = None\<rparr> :: int operand)
        \<notin> {Raw Undefined, Raw Null}
   \<and> (Clause \<lparr>resolved = Undefined, message = Some ''Could not find key b.'',
                error = None, block = None\<rparr> :: int operand) \<notin> {Raw Undefined, Raw Null}
   \<and> binaryStep whole_numbers
       (Clause \<lparr>resolved = Num 123, message = None, error = None, block = None\<rparr>)
       (''>='', Clause \<lparr>resolved = Undefined, message = Some ''Could not find key b.'',
                  error = None, block = None\<rparr>)
     = Inr (error_result (new_error TemplateStringError ''Could not find key b.''))
   \<and> resolveTemplateString
       (clause_env (error_result (new_error TemplateStringError ''Could not find key b.'')))
       ''${a >= b}''
     = Inl (new_error TemplateStringError
         ''Invalid template string (${a >= b}): Could not find key b.'')
   \<and> err_class (new_error TemplateStringError
         ''Invalid template string (${a >= b}): Could not find key b.'') = TemplateStringError"
  using undefined_operand_fails [of
      "Clause \<lparr>resolved = Num 123, message = None, error = None, block = None\<rparr>"
      "Clause \<lparr>resolved = Undefined, message = Some ''Could not find key b.'',
                error = None, block = None\<rparr>"
      whole_numbers "''>=''"]
  by (simp add: binaryStep_def join_messages_def List.map_filter_simps
      resolveTemplateString_def resolve_parts_def clause_env_def error_result_def
      rethrow_def error_prefix_def new_error_def)

text \<open>
  Claim C1 as it is written does not hold: at \<^verbatim>\<open>${a >= b}\<close> with no key \<^verbatim>\<open>b\<close> the error is a
  \<^verbatim>\<open>TemplateStringError\<close> of type \<^verbatim>\<open>template-string\<close>, not a missing-key error.
\<close>

theorem undefined_operand_error_is_not_missing_key:
  "binaryStep whole_numbers
     (Clause \<lparr>resolved = Num 123, message = None, error = None, block = None\<rparr>)
     (''>='', Clause \<lparr>resolved = Undefined, message = Some ''Could not find key b.'',
                error = None, block = None\<rparr>)
   = Inr (error_result (new_error TemplateStringError ''Could not find key b.''))
   \<and> error_type TemplateStringError = Some ''template-string''
   \<and> error_type TemplateStringError \<noteq> Some missingKeyExceptionType
   \<and> resolveTemplateString
       (clause_env (error_result (new_error TemplateStringError ''Could not find key b.'')))
       ''${a >= b}''
     = Inl (new_error TemplateStringError
         ''Invalid template string (${a >= b}): Could not find key b.'')"
  by (simp add: binaryStep_def join_messages_def List.map_filter_simps
      missingKeyExceptionType_def
      resolveTemplateString_def resolve_parts_def clause_env_def error_result_def
      rethrow_def error_prefix_def new_error_def)

text \<open>
  The statement at \<^verbatim>\<open>"a" == "a"\<close> and at an array compared with a number.
\<close>

theorem equality_operators_witness:
  "\<not> has_error (Raw (Str ''a'') :: int operand)
   \<and> \<not> has_error (Clause \<lparr>resolved = Str ''a'', message = None, error = None, block = None\<rparr> :: int operand)
   \<and> getValue (Raw (Str ''a'') :: int operand) \<noteq> Undefined
   \<and> getValue (Clause \<lparr>resolved = Str ''a'', message = None, error = None, block = None\<rparr> :: int operand)
       \<noteq> Undefined
   \<and> isPrimitive (Str ''a'' :: int jsval)
   \<and> binaryStep whole_numbers (Raw (Str ''a''))
       (''=='', Clause \<lparr>resolved = Str ''a'', message = None, error = None, block = None\<rparr>)
     = Inr (Raw (JBool True))
   \<and> binaryStep whole_numbers (Raw (Str ''a''))
       (''!='', Clause \<lparr>resolved = Str ''a'', message = None, error = None, block = None\<rparr>)
     = Inr (Raw (JBool False))
   \<and> \<not> isPrimitive (Arr [Num 1] :: int jsval)
   \<and> binaryStep whole_numbers (Raw (Arr [Num 1])) (''=='', Raw (Num 1)) = Inr (Raw (JBool False))"
  using equality_operators [of "Raw (Str ''a'')"
      "Clause \<lparr>resolved = Str ''a'', message = None, error = None, block = None\<rparr>" whole_numbers]
    equality_operators [of "Raw (Arr [Num 1])" "Raw (Num 1)" whole_numbers]
  by simp

text \<open>
  Claim C2 as it is written does not hold: an array compared with a string gives
  \<^verbatim>\<open>false\<close>, not an error.
\<close>

theorem equality_of_non_primitive_does_not_fail:
  "getValue (Clause \<lparr>resolved = Arr [Str ''a''], message = None, error = None, block = None\<rparr> :: int operand)
     = Arr [Str ''a'']
   \<and> \<not> isPrimitive (Arr [Str ''a''] :: int jsval)
   \<and> binaryStep whole_numbers
       (Clause \<lparr>resolved = Arr [Str ''a''], message = None, error = None, block = None\<rparr>)
       (''=='', Clause \<lparr>resolved = Str ''a'', message = None, error = None, block = None\<rparr>)
     = Inr (Raw (JBool False))
   \<and> \<not> has_error (Raw (JBool False) :: int operand)"
  by (simp add: binaryStep_def)

text \<open>
  The statement at \<^verbatim>\<open>1 + 2\<close>, at two arrays and at \<^verbatim>\<open>1 + "a"\<close>.
\<close>

theorem plus_operator_witness:
  "binaryStep whole_numbers (Raw (Num 1)) (''+'', Raw (Num 2)) = Inr (Raw (Num 3))
   \<and> binaryStep whole_numbers (Raw (Arr [Num 1])) (''+'', Raw (Arr [Str ''b'', Num 2]))
     = Inr (Raw (Arr [Num 1, Str ''b'', Num 2]))
   \<and> \<not> (isNumber (Num 1 :: int jsval) \<and> isNumber (Str ''a'' :: int jsval))
   \<and> \<not> (isArray (Num 1 :: int jsval) \<and> isArray (Str ''a'' :: int jsval))
   \<and> binaryStep whole_numbers (Raw (Num 1)) (''+'', Raw (Str ''a''))
     = Inr (error_result (new_error TemplateStringError
         ''Both terms need to be either arrays or numbers for + operator (got number and string).''))"
  using plus_operator [of "Raw (Num 1)" "Raw (Num 2)" whole_numbers]
    plus_operator [of "Raw (Arr [Num 1])" "Raw (Arr [Str ''b'', Num 2])" whole_numbers]
    plus_operator [of "Raw (Num 1)" "Raw (Str ''a'')" whole_numbers]
  by (simp add: whole_numbers_def)

text \<open>
  The statement at \<^verbatim>\<open>"" || "default"\<close>, \<^verbatim>\<open>"" && "default"\<close>, and with a failed operand on
  either side.
\<close>

theorem logical_operators_witness:
  "\<not> has_error (Raw (Str []) :: int operand) \<and> \<not> has_error (Raw (Str ''default'') :: int operand)
   \<and> logicalStep whole_numbers (Raw (Str [])) (''||'', Raw (Str ''default'')) = Raw (Str ''default'')
   \<and> logicalStep whole_numbers (Raw (Str [])) (''&&'', Raw (Str ''default'')) = Raw (Str [])
   \<and> has_error (error_result (new_error TemplateStringError ''e'') :: int operand)
   \<and> logicalStep whole_numbers (error_result (new_error TemplateStringError ''e''))
        (''||'', Raw (Str ''default''))
      = error_result (new_error TemplateStringError ''e'')
   \<and> logicalStep whole_numbers (Raw (Str ''x''))
        (''&&'', error_result (new_error TemplateStringError ''e''))
      = error_result (new_error TemplateStringError ''e'')"
  using logical_operators [of "Raw (Str [])" "Raw (Str ''default'')" whole_numbers "''||''"]
    logical_operators [of "error_result (new_error TemplateStringError ''e'')"
      "Raw (Str ''default'')" whole_numbers "''||''"]
    logical_operators [of "Raw (Str ''x'')"
      "error_result (new_error TemplateStringError ''e'')" whole_numbers "''&&''"]
  by (simp add: error_result_def)

text \<open>
  Claim C4 as it is written does not hold for every evaluation: in \<^verbatim>\<open>"x" || (1 + "a")\<close> the
  left operand is truthy and the result is the error of the right one.
\<close>

theorem or_with_failed_right_operand:
  "binaryStep whole_numbers (Raw (Num 1)) (''+'', Raw (Str ''a''))
     = Inr (error_result (new_error TemplateStringError
         ''Both terms need to be either arrays or numbers for + operator (got number and string).''))
   \<and> truthy whole_numbers (getValue (Raw (Str ''x'')))
   \<and> logicalStep whole_numbers (Raw (Str ''x''))
        (''||'', error_result (new_error TemplateStringError
         ''Both terms need to be either arrays or numbers for + operator (got number and string).''))
      = error_result (new_error TemplateStringError
         ''Both terms need to be either arrays or numbers for + operator (got number and string).'')
   \<and> getValue (error_result (new_error TemplateStringError
         ''Both terms need to be either arrays or numbers for + operator (got number and string).'')
         :: int operand) \<noteq> getValue (Raw (Str ''x''))"
  by (simp add: binaryStep_def logicalStep_def error_result_def)

section \<open>Properties of the object spread\<close>















section \<open>Properties of deleting deploys\<close>

lemma resolveDependencies_eq:
  "resolveDependencies g t =
    (if \<not> dependantsFirst t then []
     else map (\<lambda>d. new_DeleteDeployTask d (Some (deleteDeployNames t)) (Some True))
       (filter (\<lambda>d. kind d = Deploy \<and> name d \<in> set (deleteDeployNames t)
            \<and> (action_ref d, (Deploy, getName t)) \<in> edges g) (actions g)))"
proof -
  have "filter isDeployAction (filter (\<lambda>a. (kind a = Deploy \<and> name a \<in> S) \<and> P a) xs)
      = filter (\<lambda>d. kind d = Deploy \<and> name d \<in> S \<and> P d) xs" for S P and xs :: "action list"
    by (induction xs) (auto simp: isDeployAction_def)
  then show ?thesis
    by (simp add: resolveDependencies_def getDependants_def Let_def)
qed

lemma edge_of_dependency:
  "b \<in> set (actions g) \<Longrightarrow> d \<in> set (dependencies b) \<Longrightarrow> (action_ref b, d) \<in> edges g"
  by (auto simp: edges_def)

lemma completes_in_order_prefix:
  "completes_in_order prereq fin order \<Longrightarrow> order = xs @ t # ys
     \<Longrightarrow> set (prereq t) \<subseteq> set fin \<union> set xs"
proof (induction order arbitrary: fin xs)
  case Nil
  then show ?case by simp
next
  case (Cons u us)
  show ?case
  proof (cases xs)
    case Nil
    with Cons.prems show ?thesis by auto
  next
    case (Cons x xs')
    with Cons.prems have "us = xs' @ t # ys" "x = u"
      and "completes_in_order prereq (fin @ [u]) us" by auto
    from Cons.IH [OF this(3) this(1)] show ?thesis
      using Cons \<open>x = u\<close> by auto
  qed
qed

lemma command_schedules:
  assumes "getDeploys g names \<noteq> []" and "\<not> opt_with_dependants opts"
  shows "scheduled (DeleteDeployCommand_action g pt names opts) =
     Some (map (\<lambda>x. new_DeleteDeployTask x (Some (map name (getDeploys g names)))
                  (Some (opt_dependants_first opts))) (getDeploys g names))"
  using assms by (simp add: DeleteDeployCommand_action_def Let_def)

text \<open>
  Claim C6, as the code has it. A delete task without \<^verbatim>\<open>dependantsFirst\<close> has no prerequisite.
  With it, its prerequisites are the delete tasks, with the same names and the same flag, of
  the Deploy actions that depend directly on its action and whose names are among the names
  being deleted; a deploy that is not being deleted is never a prerequisite. So when Deploy
  \<open>b\<close> depends on Deploy \<open>a\<close> and the command runs with
  \<^verbatim>\<open>--dependants-first\<close> on deploys that include both, it schedules a task for each, the task of
  \<open>b\<close> is a prerequisite of the task of \<open>a\<close>, and in every order of completion that obeys the
  prerequisites the task of \<open>b\<close> comes before the task of \<open>a\<close>.
\<close>

theorem delete_prerequisites:
  "(\<not> dependantsFirst t \<longrightarrow> resolveDependencies g t = [])
   \<and> (dependantsFirst t \<longrightarrow>
        resolveDependencies g t =
          map (\<lambda>d. new_DeleteDeployTask d (Some (deleteDeployNames t)) (Some True))
            (filter (\<lambda>d. kind d = Deploy \<and> name d \<in> set (deleteDeployNames t)
                 \<and> (action_ref d, (Deploy, getName t)) \<in> edges g) (actions g)))
   \<and> (\<forall>p. p \<in> set (resolveDependencies g t) \<longrightarrow>
          kind (task_action p) = Deploy \<and> getName p \<in> set (deleteDeployNames t))
   \<and> (\<forall>a b. a \<in> set (getDeploys g names) \<and> b \<in> set (getDeploys g names)
          \<and> (Deploy, name a) \<in> set (dependencies b) \<longrightarrow>
        (let ns = map name (getDeploys g names);
             ta = new_DeleteDeployTask a (Some ns) (Some True);
             tb = new_DeleteDeployTask b (Some ns) (Some True)
         in scheduled (DeleteDeployCommand_action g pt names
                \<lparr>opt_dependants_first = True, opt_with_dependants = False\<rparr>)
              = Some (map (\<lambda>x. new_DeleteDeployTask x (Some ns) (Some True)) (getDeploys g names))
            \<and> tb \<in> set (resolveDependencies g ta)
            \<and> (\<forall>order xs ys. completes_in_order (resolveDependencies g) [] order
                  \<and> order = xs @ ta # ys \<longrightarrow> tb \<in> set xs)))"
proof -
  have 3: "scheduled (DeleteDeployCommand_action g pt names
                \<lparr>opt_dependants_first = True, opt_with_dependants = False\<rparr>)
              = Some (map (\<lambda>x. new_DeleteDeployTask x (Some (map name (getDeploys g names))) (Some True))
                  (getDeploys g names))
            \<and> new_DeleteDeployTask b (Some (map name (getDeploys g names))) (Some True)
                \<in> set (resolveDependencies g
                    (new_DeleteDeployTask a (Some (map name (getDeploys g names))) (Some True)))
            \<and> (\<forall>order xs ys. completes_in_order (resolveDependencies g) [] order
                  \<and> order = xs @ new_DeleteDeployTask a (Some (map name (getDeploys g names))) (Some True) # ys
                  \<longrightarrow> new_DeleteDeployTask b (Some (map name (getDeploys g names))) (Some True) \<in> set xs)"
    if a: "a \<in> set (getDeploys g names)" and b: "b \<in> set (getDeploys g names)"
      and dep: "(Deploy, name a) \<in> set (dependencies b)" for a b
  proof -
    let ?ns = "map name (getDeploys g names)"
    let ?ta = "new_DeleteDeployTask a (Some ?ns) (Some True)"
    let ?tb = "new_DeleteDeployTask b (Some ?ns) (Some True)"
    from a have ne: "getDeploys g names \<noteq> []" by auto
    from b have b': "b \<in> set (actions g)" "kind b = Deploy" "name b \<in> set ?ns"
      by (auto simp: getDeploys_def)
    have edge: "(action_ref b, (Deploy, getName ?ta)) \<in> edges g"
      using edge_of_dependency [OF b'(1) dep]
      by (simp add: getName_def new_DeleteDeployTask_def)
    have pre: "?tb \<in> set (resolveDependencies g ?ta)"
      unfolding resolveDependencies_eq
      using b' edge by (auto simp: new_DeleteDeployTask_def)
    have ord: "\<forall>order xs ys. completes_in_order (resolveDependencies g) [] order
                  \<and> order = xs @ ?ta # ys \<longrightarrow> ?tb \<in> set xs"
    proof (intro allI impI, elim conjE)
      fix order xs ys
      assume "completes_in_order (resolveDependencies g) [] order" "order = xs @ ?ta # ys"
      then have "set (resolveDependencies g ?ta) \<subseteq> set [] \<union> set xs"
        by (rule completes_in_order_prefix)
      with pre show "?tb \<in> set xs" by auto
    qed
    from command_schedules [OF ne, of "\<lparr>opt_dependants_first = True, opt_with_dependants = False\<rparr>" pt]
    have "scheduled (DeleteDeployCommand_action g pt names
                \<lparr>opt_dependants_first = True, opt_with_dependants = False\<rparr>)
              = Some (map (\<lambda>x. new_DeleteDeployTask x (Some ?ns) (Some True)) (getDeploys g names))"
      by simp
    with pre ord show ?thesis by (intro conjI)
  qed
  have 1: "\<not> dependantsFirst t \<longrightarrow> resolveDependencies g t = []"
    by (simp add: resolveDependencies_eq)
  have 2: "dependantsFirst t \<longrightarrow>
        resolveDependencies g t =
          map (\<lambda>d. new_DeleteDeployTask d (Some (deleteDeployNames t)) (Some True))
            (filter (\<lambda>d. kind d = Deploy \<and> name d \<in> set (deleteDeployNames t)
                 \<and> (action_ref d, (Deploy, getName t)) \<in> edges g) (actions g))"
    by (simp add: resolveDependencies_eq)
  from 3 have "\<forall>a b. a \<in> set (getDeploys g names) \<and> b \<in> set (getDeploys g names)
          \<and> (Deploy, name a) \<in> set (dependencies b) \<longrightarrow>
        (let ns = map name (getDeploys g names);
             ta = new_DeleteDeployTask a (Some ns) (Some True);
             tb = new_DeleteDeployTask b (Some ns) (Some True)
         in scheduled (DeleteDeployCommand_action g pt names
                \<lparr>opt_dependants_first = True, opt_with_dependants = False\<rparr>)
              = Some (map (\<lambda>x. new_DeleteDeployTask x (Some ns) (Some True)) (getDeploys g names))
            \<and> tb \<in> set (resolveDependencies g ta)
            \<and> (\<forall>order xs ys. completes_in_order (resolveDependencies g) [] order
                  \<and> order = xs @ ta # ys \<longrightarrow> tb \<in> set xs))"
    unfolding Let_def by blast
  moreover have "\<forall>p. p \<in> set (resolveDependencies g t) \<longrightarrow>
          kind (task_action p) = Deploy \<and> getName p \<in> set (deleteDeployNames t)"
    by (auto simp: resolveDependencies_eq new_DeleteDeployTask_def getName_def)
  ultimately show ?thesis using 1 2 by (intro conjI)
qed

lemma uniqByName_subset: "set (uniqByName xs) \<subseteq> set xs"
  by (induction xs rule: uniqByName.induct) auto

lemma uniqByName_names: "name ` set (uniqByName xs) = name ` set xs"
proof (induction xs rule: uniqByName.induct)
  case 1
  then show ?case by simp
next
  case (2 a as)
  have "name ` set (filter (\<lambda>b. name b \<noteq> name a) as) \<union> {name a} = name ` set as \<union> {name a}"
    by auto
  with 2 show ?case by auto
qed

lemma uniqByName_inj: "inj_on name (set xs) \<Longrightarrow> set (uniqByName xs) = set xs"
proof (induction xs rule: uniqByName.induct)
  case 1
  then show ?case by simp
next
  case (2 a as)
  from "2.prems" have inj: "inj_on name (set (filter (\<lambda>b. name b \<noteq> name a) as))"
    by (auto simp: inj_on_def)
  from "2.prems" have "set (filter (\<lambda>b. name b \<noteq> name a) as) \<union> {a} = set as \<union> {a}"
    by (auto simp: inj_on_def)
  with "2.IH" [OF inj] show ?case by auto
qed

lemma deploy_names_inj:
  assumes "distinct (map action_ref (actions g))"
    and "S \<subseteq> {d \<in> set (actions g). kind d = Deploy}"
  shows "inj_on name S"
proof (rule inj_onI)
  fix x y assume xy: "x \<in> S" "y \<in> S" "name x = name y"
  with assms(2) have "kind x = Deploy" "kind y = Deploy" "x \<in> set (actions g)" "y \<in> set (actions g)"
    by auto
  with xy(3) have "action_ref x = action_ref y" "x \<in> set (actions g)" "y \<in> set (actions g)"
    by (simp_all add: action_ref_def)
  with assms(1) show "x = y"
    by (meson distinct_map inj_onD)
qed

text \<open>
  Claim C9. When no Deploy action matches, the command logs the warning, calls no solver and
  returns the empty result. Otherwise, with \<^verbatim>\<open>--with-dependants\<close>, the tasks it schedules are
  for the named deploys and for every Deploy action with a path of dependencies to one of
  them (by name; exactly those actions when references are unique in the graph), and every
  task has \<^verbatim>\<open>dependantsFirst\<close> set and the names of all of them as the names being deleted,
  whether \<^verbatim>\<open>--dependants-first\<close> was given or not.
\<close>

theorem delete_with_dependants:
  "(getDeploys g names = [] \<longrightarrow>
      DeleteDeployCommand_action g pt names opts =
        \<lparr>warnings = [''No deploys found. Aborting.''], scheduled = None, cmd_result = []\<rparr>)
   \<and> (getDeploys g names \<noteq> [] \<and> opt_with_dependants opts \<longrightarrow>
      (\<exists>tasks.
         DeleteDeployCommand_action g pt names opts =
           \<lparr>warnings = [], scheduled = Some tasks, cmd_result = deletedDeployStatuses (pt tasks)\<rparr>
         \<and> name ` task_action ` set tasks =
             name ` (set (getDeploys g names)
               \<union> {d \<in> set (actions g). kind d = Deploy
                    \<and> (\<exists>s \<in> set (getDeploys g names). (action_ref d, (Deploy, name s)) \<in> (edges g)\<^sup>+)})
         \<and> task_action ` set tasks \<subseteq>
             set (getDeploys g names)
               \<union> {d \<in> set (actions g). kind d = Deploy
                    \<and> (\<exists>s \<in> set (getDeploys g names). (action_ref d, (Deploy, name s)) \<in> (edges g)\<^sup>+)}
         \<and> (distinct (map action_ref (actions g)) \<longrightarrow>
              task_action ` set tasks =
                set (getDeploys g names)
                  \<union> {d \<in> set (actions g). kind d = Deploy
                       \<and> (\<exists>s \<in> set (getDeploys g names). (action_ref d, (Deploy, name s)) \<in> (edges g)\<^sup>+)})
         \<and> (\<forall>t \<in> set tasks. dependantsFirst t \<and> deleteDeployNames t = map getName tasks)))"
proof -
  let ?S = "set (getDeploys g names)"
  let ?D = "{d \<in> set (actions g). kind d = Deploy
              \<and> (\<exists>s \<in> ?S. (action_ref d, (Deploy, name s)) \<in> (edges g)\<^sup>+)}"
  let ?all = "getDeploys g names @ concat (map (\<lambda>s. filter isDeployAction
                      (getDependants g Deploy (name s) True (\<lambda>a. True))) (getDeploys g names))"
  let ?acts = "uniqByName ?all"
  let ?tasks = "map (\<lambda>a. new_DeleteDeployTask a (Some (map name ?acts)) (Some True)) ?acts"
  have all: "set ?all = ?S \<union> ?D"
    by (auto simp: getDependants_def isDeployAction_def)
  have ta: "task_action ` set ?tasks = set ?acts"
    by (force simp: new_DeleteDeployTask_def image_iff)
  have 1: "getDeploys g names = [] \<longrightarrow>
      DeleteDeployCommand_action g pt names opts =
        \<lparr>warnings = [''No deploys found. Aborting.''], scheduled = None, cmd_result = []\<rparr>"
    by (simp add: DeleteDeployCommand_action_def)
  have 2: "DeleteDeployCommand_action g pt names opts =
           \<lparr>warnings = [], scheduled = Some ?tasks, cmd_result = deletedDeployStatuses (pt ?tasks)\<rparr>"
    if "getDeploys g names \<noteq> []" "opt_with_dependants opts"
    using that by (simp add: DeleteDeployCommand_action_def Let_def)
  have 3: "name ` task_action ` set ?tasks = name ` (?S \<union> ?D)"
    unfolding ta uniqByName_names all ..
  have 4: "task_action ` set ?tasks \<subseteq> ?S \<union> ?D"
    unfolding ta using uniqByName_subset [of ?all] all by simp
  have 5: "task_action ` set ?tasks = ?S \<union> ?D" if "distinct (map action_ref (actions g))"
  proof -
    have "set ?all \<subseteq> {d \<in> set (actions g). kind d = Deploy}"
      unfolding all by (auto simp: getDeploys_def)
    from deploy_names_inj [OF that this] have "set ?acts = set ?all"
      by (rule uniqByName_inj)
    then show ?thesis
      unfolding ta all by simp
  qed
  have 6: "\<forall>t \<in> set ?tasks. dependantsFirst t \<and> deleteDeployNames t = map getName ?tasks"
    by (auto simp: new_DeleteDeployTask_def getName_def comp_def)
  from 2 3 4 5 6 have "getDeploys g names \<noteq> [] \<and> opt_with_dependants opts \<longrightarrow>
      (\<exists>tasks.
         DeleteDeployCommand_action g pt names opts =
           \<lparr>warnings = [], scheduled = Some tasks, cmd_result = deletedDeployStatuses (pt tasks)\<rparr>
         \<and> name ` task_action ` set tasks = name ` (?S \<union> ?D)
         \<and> task_action ` set tasks \<subseteq> ?S \<union> ?D
         \<and> (distinct (map action_ref (actions g)) \<longrightarrow> task_action ` set tasks = ?S \<union> ?D)
         \<and> (\<forall>t \<in> set tasks. dependantsFirst t \<and> deleteDeployNames t = map getName tasks))"
    by (intro impI exI [of _ ?tasks]) blast
  with 1 show ?thesis by (intro conjI)
qed

lemma actions_chain: "actions chain = [deploy_a, deploy_b, deploy_c]"
  by (simp add: chain_def)

lemma edges_chain:
  "edges chain = {((Deploy, ''b''), (Deploy, ''a'')), ((Deploy, ''c''), (Deploy, ''b''))}"
  by (auto simp: edges_def actions_chain action_ref_def deploy_a_def deploy_b_def deploy_c_def)

lemma dependants_chain:
  "(edges chain)\<^sup>+ =
     {((Deploy, ''b''), (Deploy, ''a'')), ((Deploy, ''c''), (Deploy, ''b'')),
      ((Deploy, ''c''), (Deploy, ''a''))}"
proof -
  have "(set [((Deploy, ''b''), (Deploy, ''a'')), ((Deploy, ''c''), (Deploy, ''b''))])\<^sup>+ =
     set [((Deploy, ''b''), (Deploy, ''a'')), ((Deploy, ''c''), (Deploy, ''b'')),
      ((Deploy, ''c''), (Deploy, ''a''))]"
    by code_simp
  then show ?thesis
    by (simp add: edges_chain insert_commute)
qed

lemmas chain_simps = actions_chain deploy_a_def deploy_b_def deploy_c_def
  no_results_def getDeploys_def new_DeleteDeployTask_def

text \<open>
  The statement on the chain \<open>a\<close>, \<open>b\<close>, \<open>c\<close> with all three being deleted.
\<close>

theorem delete_prerequisites_witness:
  "dependantsFirst (new_DeleteDeployTask deploy_a (Some [''a'', ''b'', ''c'']) (Some True))
   \<and> resolveDependencies chain (new_DeleteDeployTask deploy_a (Some [''a'', ''b'', ''c'']) (Some True))
      = [new_DeleteDeployTask deploy_b (Some [''a'', ''b'', ''c'']) (Some True)]
   \<and> \<not> dependantsFirst (new_DeleteDeployTask deploy_a (Some [''a'', ''b'', ''c'']) None)
   \<and> resolveDependencies chain (new_DeleteDeployTask deploy_a (Some [''a'', ''b'', ''c'']) None) = []
   \<and> deploy_a \<in> set (getDeploys chain None) \<and> deploy_b \<in> set (getDeploys chain None)
   \<and> (Deploy, name deploy_a) \<in> set (dependencies deploy_b)
   \<and> map name (getDeploys chain None) = [''a'', ''b'', ''c'']
   \<and> scheduled (DeleteDeployCommand_action chain no_results None
          \<lparr>opt_dependants_first = True, opt_with_dependants = False\<rparr>)
      = Some [new_DeleteDeployTask deploy_a (Some [''a'', ''b'', ''c'']) (Some True),
              new_DeleteDeployTask deploy_b (Some [''a'', ''b'', ''c'']) (Some True),
              new_DeleteDeployTask deploy_c (Some [''a'', ''b'', ''c'']) (Some True)]
   \<and> completes_in_order (resolveDependencies chain) []
        ([new_DeleteDeployTask deploy_c (Some [''a'', ''b'', ''c'']) (Some True),
          new_DeleteDeployTask deploy_b (Some [''a'', ''b'', ''c'']) (Some True)]
         @ new_DeleteDeployTask deploy_a (Some [''a'', ''b'', ''c'']) (Some True) # [])
   \<and> new_DeleteDeployTask deploy_b (Some [''a'', ''b'', ''c'']) (Some True)
        \<in> set [new_DeleteDeployTask deploy_c (Some [''a'', ''b'', ''c'']) (Some True),
               new_DeleteDeployTask deploy_b (Some [''a'', ''b'', ''c'']) (Some True)]
   \<and> \<not> completes_in_order (resolveDependencies chain) []
        [new_DeleteDeployTask deploy_a (Some [''a'', ''b'', ''c'']) (Some True),
         new_DeleteDeployTask deploy_b (Some [''a'', ''b'', ''c'']) (Some True),
         new_DeleteDeployTask deploy_c (Some [''a'', ''b'', ''c'']) (Some True)]"
proof -
  let ?ns = "[''a'', ''b'', ''c'']"
  let ?ta = "new_DeleteDeployTask deploy_a (Some ?ns) (Some True)"
  let ?tb = "new_DeleteDeployTask deploy_b (Some ?ns) (Some True)"
  let ?tc = "new_DeleteDeployTask deploy_c (Some ?ns) (Some True)"
  have ra: "resolveDependencies chain ?ta = [?tb]"
    and rb: "resolveDependencies chain ?tb = [?tc]"
    and rc: "resolveDependencies chain ?tc = []"
    and rn: "resolveDependencies chain (new_DeleteDeployTask deploy_a (Some ?ns) None) = []"
    by (simp_all add: resolveDependencies_eq edges_chain getName_def action_ref_def chain_simps)
  have ns: "map name (getDeploys chain None) = ?ns"
    and mem: "deploy_a \<in> set (getDeploys chain None)" "deploy_b \<in> set (getDeploys chain None)"
      "(Deploy, name deploy_a) \<in> set (dependencies deploy_b)"
    by (simp_all add: chain_simps)
  note t = delete_prerequisites [of ?ta chain None no_results, THEN conjunct2, THEN conjunct2,
      THEN conjunct2, rule_format, of deploy_a deploy_b, unfolded Let_def ns]
  from t mem have sch: "scheduled (DeleteDeployCommand_action chain no_results None
          \<lparr>opt_dependants_first = True, opt_with_dependants = False\<rparr>)
      = Some (map (\<lambda>x. new_DeleteDeployTask x (Some ?ns) (Some True)) (getDeploys chain None))"
    by blast
  have "getDeploys chain None = [deploy_a, deploy_b, deploy_c]"
    by (simp add: chain_simps)
  with sch have sch': "scheduled (DeleteDeployCommand_action chain no_results None
          \<lparr>opt_dependants_first = True, opt_with_dependants = False\<rparr>) = Some [?ta, ?tb, ?tc]"
    by simp
  have ds: "dependantsFirst ?ta" "\<not> dependantsFirst (new_DeleteDeployTask deploy_a (Some ?ns) None)"
    by (simp_all add: new_DeleteDeployTask_def)
  have ne: "?tb \<noteq> ?tc" "?ta \<noteq> ?tb" "?ta \<noteq> ?tc"
    by (simp_all add: chain_simps)
  show ?thesis
    using ra rb rc rn ns mem sch' ds ne by simp
qed

text \<open>
  Claim C6 as it is written does not hold for every run: \<^verbatim>\<open>delete deploy a --dependants-first\<close>
  on the same chain schedules the task of \<open>a\<close> alone, and that task has no prerequisite.
\<close>

theorem delete_named_deploy_leaves_dependant:
  "(Deploy, name deploy_a) \<in> set (dependencies deploy_b)
   \<and> deploy_b \<in> set (actions chain)
   \<and> DeleteDeployCommand_action chain no_results (Some [''a''])
        \<lparr>opt_dependants_first = True, opt_with_dependants = False\<rparr>
      = \<lparr>warnings = [],
         scheduled = Some [new_DeleteDeployTask deploy_a (Some [''a'']) (Some True)],
         cmd_result = []\<rparr>
   \<and> resolveDependencies chain (new_DeleteDeployTask deploy_a (Some [''a'']) (Some True)) = []"
proof -
  show ?thesis
    by (simp add: resolveDependencies_eq edges_chain getName_def action_ref_def chain_simps
        DeleteDeployCommand_action_def deletedDeployStatuses_def List.map_filter_simps)
qed

text \<open>
  The statement on the chain: \<^verbatim>\<open>delete deploy x --with-dependants\<close> finds nothing, and
  \<^verbatim>\<open>delete deploy a --with-dependants\<close> schedules \<open>a\<close>, \<open>b\<close> and \<open>c\<close>, dependants first.
\<close>

theorem delete_with_dependants_witness:
  "getDeploys chain (Some [''x'']) = []
   \<and> DeleteDeployCommand_action chain no_results (Some [''x''])
        \<lparr>opt_dependants_first = False, opt_with_dependants = True\<rparr>
      = \<lparr>warnings = [''No deploys found. Aborting.''], scheduled = None, cmd_result = []\<rparr>
   \<and> getDeploys chain (Some [''a'']) = [deploy_a]
   \<and> opt_with_dependants \<lparr>opt_dependants_first = False, opt_with_dependants = True\<rparr>
   \<and> distinct (map action_ref (actions chain))
   \<and> DeleteDeployCommand_action chain no_results (Some [''a''])
        \<lparr>opt_dependants_first = False, opt_with_dependants = True\<rparr>
      = \<lparr>warnings = [],
         scheduled = Some [new_DeleteDeployTask deploy_a (Some [''a'', ''b'', ''c'']) (Some True),
                           new_DeleteDeployTask deploy_b (Some [''a'', ''b'', ''c'']) (Some True),
                           new_DeleteDeployTask deploy_c (Some [''a'', ''b'', ''c'']) (Some True)],
         cmd_result = []\<rparr>"
proof -
  let ?opts = "\<lparr>opt_dependants_first = False, opt_with_dependants = True\<rparr>"
  have x: "getDeploys chain (Some [''x'']) = []"
    and a: "getDeploys chain (Some [''a'']) = [deploy_a]"
    and d: "distinct (map action_ref (actions chain))"
    by (simp_all add: chain_simps action_ref_def)
  from delete_with_dependants [of chain "Some [''x'']" no_results ?opts] x
  have abort: "DeleteDeployCommand_action chain no_results (Some [''x'']) ?opts
      = \<lparr>warnings = [''No deploys found. Aborting.''], scheduled = None, cmd_result = []\<rparr>"
    by blast
  have run: "DeleteDeployCommand_action chain no_results (Some [''a'']) ?opts
      = \<lparr>warnings = [],
         scheduled = Some [new_DeleteDeployTask deploy_a (Some [''a'', ''b'', ''c'']) (Some True),
                           new_DeleteDeployTask deploy_b (Some [''a'', ''b'', ''c'']) (Some True),
                           new_DeleteDeployTask deploy_c (Some [''a'', ''b'', ''c'']) (Some True)],
         cmd_result = []\<rparr>"
    by (simp add: DeleteDeployCommand_action_def a getDependants_def dependants_chain isDeployAction_def
        deletedDeployStatuses_def List.map_filter_simps action_ref_def chain_simps)
  show ?thesis
    using x a d abort run by simp
qed

section \<open>Properties of the test task, the watch loop and command results\<close>

text \<open>
  Claim C7. The solver returns the stored result of a Test task without calling the run
  handler exactly when the force flag is unset and the stored result has a detail with
  \<^verbatim>\<open>success\<close> true; then the only handler called is the one that reads the stored result.
  Otherwise the run handler is called once and decides the outcome. With the force flag set
  the stored result is never read and the test is run.
\<close>

theorem test_short_circuit:
  "(cached_pass force router \<longrightarrow>
      fst (run_test_task force router took tr) = Inr (the (router_getResult router))
      \<and> calls (snd (run_test_task force router took tr)) = calls tr @ [GetResultCall])
   \<and> (\<not> cached_pass force router \<longrightarrow>
      fst (run_test_task force router took tr) =
        (case router_run router of
           Inl err \<Rightarrow> Inl err
         | Inr result \<Rightarrow>
            (case gtr_detail result of
               None \<Rightarrow> Inl (new_error TestError [])
             | Some d \<Rightarrow> if td_success d then Inr result else Inl (new_error TestError (td_log d))))
      \<and> calls (snd (run_test_task force router took tr)) =
           calls tr @ (if force then [] else [GetResultCall]) @ [RunCall])
   \<and> (force \<longrightarrow> \<not> cached_pass force router
         \<and> calls (snd (run_test_task force router took tr)) = calls tr @ [RunCall])
   \<and> (RunCall \<in> set (calls (snd (run_test_task force router took tr)))
        \<longleftrightarrow> RunCall \<in> set (calls tr) \<or> \<not> cached_pass force router)"
  by (auto simp: cached_pass_def run_test_task_def TestTask_getStatus_def getTestResult_def
      TestTask_process_def Let_def split: option.splits sum.splits prod.splits if_splits)












text \<open>
  The statement with a stored passing result, without and with the force flag, and with a
  stored failing result.
\<close>

theorem test_short_circuit_witness:
  "cached_pass False passed_router
   \<and> run_test_task False passed_router ''1.0'' \<lparr>calls = [], task_log = []\<rparr>
      = (Inr \<lparr>gtr_detail = Some \<lparr>td_success = True, td_log = ''stored''\<rparr>\<rparr>,
         \<lparr>calls = [GetResultCall],
          task_log = [LogInfo ''Already passed'', SetSuccess ''Already passed'']\<rparr>)
   \<and> \<not> cached_pass True passed_router
   \<and> run_test_task True passed_router ''1.0'' \<lparr>calls = [], task_log = []\<rparr>
      = (Inr \<lparr>gtr_detail = Some \<lparr>td_success = True, td_log = ''ran''\<rparr>\<rparr>,
         \<lparr>calls = [RunCall],
          task_log = [LogInfo ''Running...'', SetSuccess ''Success (took 1.0 sec)'']\<rparr>)
   \<and> \<not> cached_pass False failed_router
   \<and> run_test_task False failed_router ''1.0'' \<lparr>calls = [], task_log = []\<rparr>
      = (Inl (new_error TestError ''1 failing''),
         \<lparr>calls = [GetResultCall, RunCall],
          task_log = [LogInfo ''Running...'', SetError ''Failed! (took 1.0 sec)'']\<rparr>)"
proof -
  let ?tr = "\<lparr>calls = [], task_log = []\<rparr>"
  have c: "cached_pass False passed_router" "\<not> cached_pass True passed_router"
    "\<not> cached_pass False failed_router"
    by (simp_all add: cached_pass_def passed_router_def failed_router_def)
  from test_short_circuit [of False passed_router "''1.0''" ?tr] c(1)
  have "calls (snd (run_test_task False passed_router ''1.0'' ?tr)) = [GetResultCall]"
    by simp
  moreover from test_short_circuit [of True passed_router "''1.0''" ?tr]
  have "calls (snd (run_test_task True passed_router ''1.0'' ?tr)) = [RunCall]"
    by simp
  moreover from test_short_circuit [of False failed_router "''1.0''" ?tr] c(3)
  have "calls (snd (run_test_task False failed_router ''1.0'' ?tr)) = [GetResultCall, RunCall]"
    by simp
  ultimately show ?thesis
    using c
    by (simp add: run_test_task_def TestTask_getStatus_def getTestResult_def
        TestTask_process_def passed_router_def failed_router_def)
qed


end
